theory Spec2Isabelle
  imports Complex_Main "HOL-Library.Product_Lexorder"
begin

section \<open>The media-acquisition core of the space news generator\<close>

text \<open>
  The three Python modules embedded here are \<^verbatim>\<open>api_manager.py\<close> (circuit breaker,
  retry executor, acquisition orchestrator), \<^verbatim>\<open>database_client.py\<close> (content cache,
  call log, health aggregate, query normalisation) and \<^verbatim>\<open>resource_manager.py\<close>
  (worker sizing).

  Conventions of the embedding.
  \<^item> Wall-clock time (\<^verbatim>\<open>time.time()\<close>, \<^verbatim>\<open>datetime.now()\<close>) is a number of seconds of
    type \<open>real\<close>. The clock is an oracle \<open>clk :: nat \<Rightarrow> real\<close>: \<open>clk n\<close> is the value of
    the \<open>n\<close>-th reading, and the state counts the readings made so far. Nothing is
    assumed about the oracle (it need not be monotone).
  \<^item> Python floats are idealised as reals; ISO-8601 time strings stored in the tables
    are idealised as the instants they denote.
  \<^item> A Python exception is represented by its message (\<open>str(e)\<close>).
  \<^item> A query, the one kind of string the program transforms, is the list of its code
    points (\<open>pystr\<close>).
  \<^item> The remote tables are lists of rows in table order; the store itself never fails.
\<close>

type_synonym exn = string
type_synonym clock = "nat \<Rightarrow> real"
type_synonym pystr = "nat list"

subsection \<open>Resource governor (\<^verbatim>\<open>resource_manager.py\<close>)\<close>

text \<open>
  \<^verbatim>\<open>get_optimal_workers\<close>. The two readings of the system, \<^verbatim>\<open>self.cpu_count\<close> and
  \<^verbatim>\<open>psutil.virtual_memory().available\<close> (bytes), are arguments.
\<close>

definition get_optimal_workers :: "int \<Rightarrow> int \<Rightarrow> int \<Rightarrow> int \<Rightarrow> int" where
  "get_optimal_workers cpu_count available_memory min_workers max_workers =
     (let memory_gb = real_of_int available_memory / (1024 ^ 3);
          workers =
            (if memory_gb < 4 then min_workers
             else if memory_gb < 8 then min (cpu_count div 2) max_workers
             else min cpu_count max_workers)
      in max min_workers workers)"

subsection \<open>State\<close>

text \<open>Class \<^verbatim>\<open>CircuitBreaker\<close> of \<^verbatim>\<open>api_manager.py\<close>.\<close>

record CircuitBreaker =
  failure_threshold :: int
  timeout :: int
  failures :: "string \<rightharpoonup> int"
  last_failure_time :: "string \<rightharpoonup> real"

text \<open>
  A row of table \<^verbatim>\<open>media_cache\<close>. The columns \<open>m_id\<close>, \<open>m_use_count\<close> and
  \<open>m_last_used_at\<close> are never sent by \<^verbatim>\<open>save_media_cache\<close>: the store fills them in.
\<close>

record media_row =
  m_id :: nat
  m_query :: pystr
  m_source :: string
  m_media_url :: string
  m_local_path :: string
  m_file_hash :: string
  m_media_type :: string
  m_resolution :: "string option"
  m_file_size :: int
  m_quality_score :: int
  m_use_count :: int
  m_last_used_at :: "real option"
  m_expires_at :: real

text \<open>A row of table \<^verbatim>\<open>api_tracking\<close>; \<open>a_created_at\<close> is filled in by the store.\<close>

record api_row =
  a_source :: string
  a_query :: string
  a_success :: bool
  a_response_time_ms :: int
  a_error_message :: "string option"
  a_created_at :: real

text \<open>
  Everything the three classes read and write: the two tables and the store's row
  counter, the breaker owned by \<^verbatim>\<open>APIManager\<close>, the delays passed to \<^verbatim>\<open>time.sleep\<close> so
  far, the number of provider operations invoked so far, and the number of clock
  readings made so far.
\<close>

record world =
  media_cache :: "media_row list"
  api_tracking :: "api_row list"
  next_id :: nat
  circuit_breaker :: CircuitBreaker
  sleeps :: "real list"
  calls :: nat
  ticks :: nat

text \<open>\<^verbatim>\<open>time.time()\<close> and \<^verbatim>\<open>datetime.now()\<close>: one reading of the clock.\<close>

definition time_time :: "clock \<Rightarrow> world \<Rightarrow> real \<times> world" where
  "time_time clk w = (clk (ticks w), w\<lparr>ticks := Suc (ticks w)\<rparr>)"

text \<open>\<^verbatim>\<open>time.sleep(delay)\<close>\<close>

definition time_sleep :: "real \<Rightarrow> world \<Rightarrow> world" where
  "time_sleep delay w = w\<lparr>sleeps := sleeps w @ [delay]\<rparr>"

subsection \<open>Circuit breaker (\<^verbatim>\<open>api_manager.py\<close>, class \<^verbatim>\<open>CircuitBreaker\<close>)\<close>

text \<open>\<^verbatim>\<open>CircuitBreaker(failure_threshold=5, timeout=60)\<close>\<close>

definition new_CircuitBreaker :: "int \<Rightarrow> int \<Rightarrow> CircuitBreaker" where
  "new_CircuitBreaker threshold tmo =
     \<lparr>failure_threshold = threshold, timeout = tmo,
      failures = Map.empty, last_failure_time = Map.empty\<rparr>"

text \<open>\<^verbatim>\<open>d.get(source, 0)\<close>\<close>

definition get_or_zero :: "(string \<rightharpoonup> 'a::zero) \<Rightarrow> string \<Rightarrow> 'a" where
  "get_or_zero d source = (case d source of None \<Rightarrow> 0 | Some v \<Rightarrow> v)"

text \<open>Assignment to \<^verbatim>\<open>self.failures[source]\<close> and to \<^verbatim>\<open>self.last_failure_time[source]\<close>.\<close>

definition set_failures :: "string \<Rightarrow> int \<Rightarrow> world \<Rightarrow> world" where
  "set_failures source n w =
     w\<lparr>circuit_breaker := (circuit_breaker w)
         \<lparr>failures := (failures (circuit_breaker w))(source \<mapsto> n)\<rparr>\<rparr>"

definition set_last_failure_time :: "string \<Rightarrow> real \<Rightarrow> world \<Rightarrow> world" where
  "set_last_failure_time source t w =
     w\<lparr>circuit_breaker := (circuit_breaker w)
         \<lparr>last_failure_time := (last_failure_time (circuit_breaker w))(source \<mapsto> t)\<rparr>\<rparr>"

definition is_open :: "clock \<Rightarrow> string \<Rightarrow> world \<Rightarrow> bool \<times> world" where
  "is_open clk source w =
     (case failures (circuit_breaker w) source of
        None \<Rightarrow> (False, w)
      | Some n \<Rightarrow>
          if failure_threshold (circuit_breaker w) \<le> n then
            (let (now, w1) = time_time clk w;
                 elapsed = now - get_or_zero (last_failure_time (circuit_breaker w1)) source
             in if elapsed < real_of_int (timeout (circuit_breaker w1)) then (True, w1)
                else (False, set_failures source 0 w1))
          else (False, w))"

definition record_success :: "string \<Rightarrow> world \<Rightarrow> world" where
  "record_success source w = set_failures source 0 w"

definition record_failure :: "clock \<Rightarrow> string \<Rightarrow> world \<Rightarrow> world" where
  "record_failure clk source w =
     (let w1 = set_failures source (get_or_zero (failures (circuit_breaker w)) source + 1) w;
          (now, w2) = time_time clk w1
      in set_last_failure_time source now w2)"

subsection \<open>Query normalisation (\<^verbatim>\<open>database_client.py\<close>)\<close>

text \<open>
  A query is a Python string: the list of its code points, each a natural number. (The
  other strings of the program, provider names, URLs, hashes and messages, are only
  copied and compared; they are modelled as \<open>string\<close>.)

  \<^verbatim>\<open>str.lower\<close> and \<^verbatim>\<open>str.split\<close> read the Unicode character database built into the
  interpreter. The database is not part of the sources, so its tables are a parameter:
  the full lower-case mapping of a code point (\<^verbatim>\<open>_PyUnicode_ToLowerFull\<close>, one to three
  code points), the properties Cased and Case_Ignorable, and \<^verbatim>\<open>str.isspace\<close> of one code
  point. The last table, the full case folding of a code point (\<^verbatim>\<open>str.casefold\<close>), is
  not read by the program; it serves to say when two strings differ only in letter case.
\<close>

record unicode_db =
  to_lower_full :: "nat \<Rightarrow> nat list"
  is_cased :: "nat \<Rightarrow> bool"
  is_case_ignorable :: "nat \<Rightarrow> bool"
  is_space :: "nat \<Rightarrow> bool"
  case_fold :: "nat \<Rightarrow> nat list"

text \<open>
  \<^verbatim>\<open>str.lower\<close>, as the interpreter computes it (\<^verbatim>\<open>do_lower\<close>, \<^verbatim>\<open>lower_ucs4\<close> and
  \<^verbatim>\<open>handle_capital_sigma\<close> of \<^verbatim>\<open>unicodeobject.c\<close>): every code point is replaced by its
  full lower-case mapping, except the capital sigma U+03A3 (931), which becomes the final
  sigma U+03C2 (962) when, case-ignorable code points aside, it follows a cased code
  point and is not followed by one, and the small sigma U+03C3 (963) otherwise. \<open>before\<close>
  holds the code points in front of the current one, the nearest first.
\<close>

definition final_sigma :: "unicode_db \<Rightarrow> pystr \<Rightarrow> pystr \<Rightarrow> bool" where
  "final_sigma uni before after =
     ((case dropWhile (is_case_ignorable uni) before of
         [] \<Rightarrow> False | c # _ \<Rightarrow> is_cased uni c) \<and>
      (case dropWhile (is_case_ignorable uni) after of
         [] \<Rightarrow> True | c # _ \<Rightarrow> \<not> is_cased uni c))"

definition lower_ucs4 :: "unicode_db \<Rightarrow> pystr \<Rightarrow> nat \<Rightarrow> pystr \<Rightarrow> pystr" where
  "lower_ucs4 uni before c after =
     (if c = 931 then [if final_sigma uni before after then 962 else 963]
      else to_lower_full uni c)"

fun lower_from :: "unicode_db \<Rightarrow> pystr \<Rightarrow> pystr \<Rightarrow> pystr" where
  "lower_from uni before [] = []"
| "lower_from uni before (c # after) =
     lower_ucs4 uni before c after @ lower_from uni (c # before) after"

definition str_lower :: "unicode_db \<Rightarrow> pystr \<Rightarrow> pystr" where
  "str_lower uni s = lower_from uni [] s"

text \<open>
  \<^verbatim>\<open>str.split()\<close> without arguments: a scan that collects the current word in \<open>cur\<close>,
  closes it at a whitespace code point and drops empty words.
\<close>

fun split_from :: "unicode_db \<Rightarrow> pystr \<Rightarrow> pystr \<Rightarrow> pystr list" where
  "split_from uni cur [] = (if cur = [] then [] else [cur])"
| "split_from uni cur (c # cs) =
     (if is_space uni c
      then (if cur = [] then split_from uni [] cs else cur # split_from uni [] cs)
      else split_from uni (cur @ [c]) cs)"

definition str_split :: "unicode_db \<Rightarrow> pystr \<Rightarrow> pystr list" where
  "str_split uni s = split_from uni [] s"

text \<open>\<^verbatim>\<open>sep.join(words)\<close>\<close>

fun str_join :: "pystr \<Rightarrow> pystr list \<Rightarrow> pystr" where
  "str_join sep [] = []"
| "str_join sep [w] = w"
| "str_join sep (w # v # ws) = w @ sep @ str_join sep (v # ws)"

text \<open>\<^verbatim>\<open>" ".join(query.lower().split())\<close>; the space is code point 32.\<close>

definition normalize_query :: "unicode_db \<Rightarrow> pystr \<Rightarrow> pystr" where
  "normalize_query uni query = str_join [32] (str_split uni (str_lower uni query))"




subsection \<open>Content cache (\<^verbatim>\<open>database_client.py\<close>)\<close>

text \<open>
  \<^verbatim>\<open>.order("quality_score", desc=True).order("use_count", desc=True)\<close>: a stable sort,
  so rows that tie on both columns stay in table order (the store leaves their order
  open).
\<close>

definition order_desc :: "media_row list \<Rightarrow> media_row list" where
  "order_desc rows = sort_key (\<lambda>r. (- m_quality_score r, - m_use_count r)) rows"

text \<open>
  The filters that \<^verbatim>\<open>get_cached_media\<close> puts on the query builder, as a predicate on
  rows: \<^verbatim>\<open>eq("query", normalized_query)\<close>, \<^verbatim>\<open>gt("expires_at", now)\<close> and, when \<^verbatim>\<open>source\<close>
  is given and not empty, \<^verbatim>\<open>eq("source", source)\<close>.
\<close>

definition media_filter :: "pystr \<Rightarrow> real \<Rightarrow> string option \<Rightarrow> media_row \<Rightarrow> bool" where
  "media_filter normalized_query now source r =
     (m_query r = normalized_query \<and> now < m_expires_at r \<and>
      (case source of None \<Rightarrow> True | Some src \<Rightarrow> src = [] \<or> m_source r = src))"

text \<open>
  \<^verbatim>\<open>get_cached_media(query, source=None)\<close>. The \<^verbatim>\<open>update ... eq("id", media["id"])\<close>
  rewrites every row carrying that id; the row returned is the one read before the
  update.
\<close>

definition get_cached_media ::
  "unicode_db \<Rightarrow> clock \<Rightarrow> pystr \<Rightarrow> string option \<Rightarrow> world \<Rightarrow> media_row option \<times> world" where
  "get_cached_media uni clk query source w =
     (let normalized_query = normalize_query uni query;
          (now, w1) = time_time clk w;
          rows = filter (media_filter normalized_query now source) (media_cache w1)
      in case take 1 (order_desc rows) of
           [] \<Rightarrow> (None, w1)
         | media # _ \<Rightarrow>
             (let (now2, w2) = time_time clk w1
              in (Some media,
                  w2\<lparr>media_cache :=
                       map (\<lambda>r. if m_id r = m_id media
                                 then r\<lparr>m_last_used_at := Some now2,
                                        m_use_count := m_use_count media + 1\<rparr>
                                 else r)
                           (media_cache w2)\<rparr>)))"



subsection \<open>Call log and health aggregate (\<^verbatim>\<open>database_client.py\<close>)\<close>

text \<open>
  \<^verbatim>\<open>track_api_call\<close>. Modelled from the spec: the declaration of table \<^verbatim>\<open>api_tracking\<close>
  is not part of the sources; an APICallRecord carries the timestamp of its creation, so
  the store stamps \<open>a_created_at\<close> with one reading of the clock at insertion.
\<close>

definition track_api_call ::
  "clock \<Rightarrow> string \<Rightarrow> string \<Rightarrow> bool \<Rightarrow> int \<Rightarrow> string option \<Rightarrow> world \<Rightarrow> world" where
  "track_api_call clk source query success response_time_ms error_message w =
     (let (created, w1) = time_time clk w;
          data = \<lparr>a_source = source, a_query = query, a_success = success,
                  a_response_time_ms = response_time_ms, a_error_message = error_message,
                  a_created_at = created\<rparr>
      in w1\<lparr>api_tracking := api_tracking w1 @ [data]\<rparr>)"

record health =
  success_rate :: real
  avg_response_time :: real
  total_calls :: nat

definition get_api_health :: "clock \<Rightarrow> string \<Rightarrow> int \<Rightarrow> world \<Rightarrow> health \<times> world" where
  "get_api_health clk source minutes w =
     (let (now, w1) = time_time clk w;
          cutoff_time = now - real_of_int minutes * 60;
          data = filter (\<lambda>r. a_source r = source \<and> cutoff_time < a_created_at r)
                   (api_tracking w1)
      in if data = [] then
           (\<lparr>success_rate = 1, avg_response_time = 0, total_calls = 0\<rparr>, w1)
         else
           (let total = length data;
                successful_calls = length (filter a_success data);
                avg = real_of_int (sum_list (map a_response_time_ms data)) / real total
            in (\<lparr>success_rate = real successful_calls / real total,
                 avg_response_time = avg,
                 total_calls = total\<rparr>, w1)))"

subsection \<open>Retry executor (\<^verbatim>\<open>api_manager.py\<close>)\<close>

text \<open>\<^verbatim>\<open>int(x)\<close> on a float: truncation towards zero.\<close>

definition py_int :: "real \<Rightarrow> int" where
  "py_int x = (if 0 \<le> x then \<lfloor>x\<rfloor> else \<lceil>x\<rceil>)"

text \<open>
  A zero-argument operation is an oracle: \<open>func n\<close> is what the operation does when it
  is the \<open>n\<close>-th operation invoked in this state, either raising (\<open>Inl\<close>) or returning
  a Python value (\<open>None\<close> is Python's \<^verbatim>\<open>None\<close>).
\<close>

type_synonym 'a operation = "nat \<Rightarrow> exn + 'a option"

definition call_func :: "'a operation \<Rightarrow> world \<Rightarrow> (exn + 'a option) \<times> world" where
  "call_func func w = (func (calls w), w\<lparr>calls := Suc (calls w)\<rparr>)"

text \<open>
  The body of \<^verbatim>\<open>for attempt in range(max_retries)\<close>, over the attempts still to run.
  Both the \<^verbatim>\<open>try\<close> branch and the handler first read the clock for the response time;
  that reading is written once, before the case distinction. \<^verbatim>\<open>time.sleep\<close> raises
  \<^verbatim>\<open>ValueError\<close> on a negative delay; raised inside the handler, it leaves the function.
  Falling out of the loop returns \<^verbatim>\<open>None\<close>.
\<close>

fun retry_attempts ::
  "clock \<Rightarrow> 'a operation \<Rightarrow> int \<Rightarrow> real \<Rightarrow> string \<Rightarrow> nat list \<Rightarrow> world \<Rightarrow>
   (exn + 'a option) \<times> world" where
  "retry_attempts clk func max_retries base_delay source [] w = (Inr None, w)"
| "retry_attempts clk func max_retries base_delay source (attempt # rest) w =
     (let (start_time, w1) = time_time clk w;
          (outcome, w2) = call_func func w1;
          (end_time, w3) = time_time clk w2;
          response_time = py_int ((end_time - start_time) * 1000)
      in case outcome of
           Inr result \<Rightarrow>
             (let w4 = track_api_call clk source [] True response_time None w3;
                  w5 = record_success source w4
              in (Inr result, w5))
         | Inl e \<Rightarrow>
             (let w4 = track_api_call clk source [] False response_time (Some e) w3;
                  w5 = record_failure clk source w4
              in if int attempt = max_retries - 1 then (Inl e, w5)
                 else
                   (let delay = base_delay * 2 ^ attempt
                    in if delay < 0 then (Inl ''sleep length must be non-negative'', w5)
                       else retry_attempts clk func max_retries base_delay source rest
                              (time_sleep delay w5))))"

definition retry_with_backoff ::
  "clock \<Rightarrow> 'a operation \<Rightarrow> int \<Rightarrow> real \<Rightarrow> string \<Rightarrow> world \<Rightarrow> (exn + 'a option) \<times> world" where
  "retry_with_backoff clk func max_retries base_delay source w =
     retry_attempts clk func max_retries base_delay source [0..<nat max_retries] w"

subsection \<open>Acquisition orchestrator (\<^verbatim>\<open>api_manager.py\<close>)\<close>

text \<open>
  Each \<^verbatim>\<open>_search_<provider>(query)\<close> sends one HTTP request and decodes the reply. The
  request and the reply are outside the model: \<open>net n provider query\<close> is the outcome of
  that function when it is the \<open>n\<close>-th operation invoked, a URL, \<^verbatim>\<open>None\<close> or an
  exception.
\<close>

type_synonym network = "nat \<Rightarrow> string \<Rightarrow> pystr \<Rightarrow> exn + string option"

definition search_provider :: "network \<Rightarrow> string \<Rightarrow> pystr \<Rightarrow> string operation" where
  "search_provider net provider query = (\<lambda>n. net n provider query)"

definition search_source ::
  "clock \<Rightarrow> network \<Rightarrow> string \<Rightarrow> pystr \<Rightarrow> world \<Rightarrow> (exn + string option) \<times> world" where
  "search_source clk net source query w =
     (if source = ''nasa'' then
        retry_with_backoff clk (search_provider net ''nasa'' query) 3 1 ''nasa'' w
      else if source = ''pexels'' then
        retry_with_backoff clk (search_provider net ''pexels'' query) 3 1 ''pexels'' w
      else if source = ''pixabay'' then
        retry_with_backoff clk (search_provider net ''pixabay'' query) 3 1 ''pixabay'' w
      else if source = ''unsplash'' then
        retry_with_backoff clk (search_provider net ''unsplash'' query) 3 1 ''unsplash'' w
      else if source = ''giphy'' then
        retry_with_backoff clk (search_provider net ''giphy'' query) 3 1 ''giphy'' w
      else (Inr None, w))"

text \<open>\<^verbatim>\<open>if url:\<close> on an optional string: \<^verbatim>\<open>None\<close> and the empty string are false.\<close>

fun truthy :: "string option \<Rightarrow> bool" where
  "truthy None = False"
| "truthy (Some url) = (url \<noteq> [])"

text \<open>The loop \<^verbatim>\<open>for source in search_order\<close>; the bare \<^verbatim>\<open>except\<close> continues with the next source.\<close>

fun try_sources ::
  "clock \<Rightarrow> network \<Rightarrow> pystr \<Rightarrow> string list \<Rightarrow> world \<Rightarrow> string option \<times> world" where
  "try_sources clk net query [] w = (None, w)"
| "try_sources clk net query (source # rest) w =
     (let (is_open_now, w1) = is_open clk source w
      in if is_open_now then try_sources clk net query rest w1
         else
           (let (health, w2) = get_api_health clk source 30 w1
            in if success_rate health < 0.3 then try_sources clk net query rest w2
               else
                 (let (outcome, w3) = search_source clk net source query w2
                  in case outcome of
                       Inr url \<Rightarrow> if truthy url then (url, w3)
                                  else try_sources clk net query rest w3
                     | Inl e \<Rightarrow> try_sources clk net query rest w3)))"

definition search_order :: "bool \<Rightarrow> string list" where
  "search_order prefer_video =
     (if prefer_video then [''pixabay'', ''nasa'', ''pexels'', ''giphy'']
      else [''nasa'', ''pixabay'', ''pexels'', ''unsplash''])"

definition search_with_fallback ::
  "unicode_db \<Rightarrow> clock \<Rightarrow> network \<Rightarrow> pystr \<Rightarrow> bool \<Rightarrow> world \<Rightarrow> string option \<times> world" where
  "search_with_fallback uni clk net query prefer_video w =
     (let (cached, w1) = get_cached_media uni clk query None w
      in case cached of
           Some media \<Rightarrow> (Some (m_media_url media), w1)
         | None \<Rightarrow> try_sources clk net query (search_order prefer_video) w1)"

subsection \<open>Closed forms of the state\<close>

text \<open>
  The state after \<open>k\<close> failed attempts of the retry executor, the \<open>j\<close>-th raising
  \<open>errs j\<close>, each followed by its sleep, and the state after a successful attempt, written
  out field by field. They are used in the proofs about the retry executor; the
  executor itself is \<open>retry_attempts\<close> above.
\<close>

definition failure_row :: "clock \<Rightarrow> string \<Rightarrow> world \<Rightarrow> (nat \<Rightarrow> exn) \<Rightarrow> nat \<Rightarrow> api_row" where
  "failure_row clk source w errs j =
     \<lparr>a_source = source, a_query = [], a_success = False,
      a_response_time_ms = py_int ((clk (ticks w + 4 * j + 1) - clk (ticks w + 4 * j)) * 1000),
      a_error_message = Some (errs j),
      a_created_at = clk (ticks w + 4 * j + 2)\<rparr>"

definition after_failures ::
  "clock \<Rightarrow> string \<Rightarrow> (nat \<Rightarrow> exn) \<Rightarrow> nat \<Rightarrow> world \<Rightarrow> world" where
  "after_failures clk source errs k w =
     w\<lparr>ticks := ticks w + 4 * k,
       calls := calls w + k,
       api_tracking := api_tracking w @ map (failure_row clk source w errs) [0..<k],
       circuit_breaker := (circuit_breaker w)
         \<lparr>failures :=
            (if k = 0 then failures (circuit_breaker w)
             else (failures (circuit_breaker w))
                    (source \<mapsto> get_or_zero (failures (circuit_breaker w)) source + int k)),
          last_failure_time :=
            (if k = 0 then last_failure_time (circuit_breaker w)
             else (last_failure_time (circuit_breaker w))
                    (source \<mapsto> clk (ticks w + 4 * k - 1)))\<rparr>\<rparr>"

definition after_retries ::
  "clock \<Rightarrow> string \<Rightarrow> real \<Rightarrow> (nat \<Rightarrow> exn) \<Rightarrow> nat \<Rightarrow> world \<Rightarrow> world" where
  "after_retries clk source base_delay errs k w =
     (after_failures clk source errs k w)
       \<lparr>sleeps := sleeps w @ map (\<lambda>j. base_delay * 2 ^ j) [0..<k]\<rparr>"

definition after_success :: "clock \<Rightarrow> string \<Rightarrow> world \<Rightarrow> world" where
  "after_success clk source w =
     w\<lparr>ticks := ticks w + 3,
       calls := calls w + 1,
       api_tracking := api_tracking w @
         [\<lparr>a_source = source, a_query = [], a_success = True,
           a_response_time_ms = py_int ((clk (ticks w + 1) - clk (ticks w)) * 1000),
           a_error_message = None,
           a_created_at = clk (ticks w + 2)\<rparr>],
       circuit_breaker := (circuit_breaker w)
         \<lparr>failures := (failures (circuit_breaker w))(source \<mapsto> 0)\<rparr>\<rparr>"


subsection \<open>Example states\<close>

text \<open>The code points of a literal.\<close>

definition codepoints :: "string \<Rightarrow> pystr" where
  "codepoints s = map of_char s"

text \<open>
  An excerpt of the Unicode tables: the code points below 256, the Greek capital
  letters U+0391 to U+03A9 (913 to 937, 930 being unassigned) and the Greek small letters
  U+03B1 to U+03C9 (945 to 969). On these code points it holds what the interpreter's
  tables hold; every other code point is left unchanged, uncased and not whitespace.
\<close>

definition excerpt_upper :: "nat \<Rightarrow> bool" where
  "excerpt_upper c =
     ((65 \<le> c \<and> c \<le> 90) \<or> (192 \<le> c \<and> c \<le> 222 \<and> c \<noteq> 215) \<or>
      (913 \<le> c \<and> c \<le> 937 \<and> c \<noteq> 930))"

definition excerpt_lower :: "nat \<Rightarrow> nat list" where
  "excerpt_lower c = [if excerpt_upper c then c + 32 else c]"

definition excerpt_cased :: "nat \<Rightarrow> bool" where
  "excerpt_cased c =
     (excerpt_upper c \<or> (97 \<le> c \<and> c \<le> 122) \<or> c = 170 \<or> c = 181 \<or> c = 186 \<or>
      (223 \<le> c \<and> c \<le> 246) \<or> (248 \<le> c \<and> c \<le> 255) \<or> (945 \<le> c \<and> c \<le> 969))"

definition excerpt_case_ignorable :: "nat \<Rightarrow> bool" where
  "excerpt_case_ignorable c =
     (c = 39 \<or> c = 46 \<or> c = 58 \<or> c = 94 \<or> c = 96 \<or> c = 168 \<or> c = 173 \<or> c = 175 \<or>
      c = 180 \<or> c = 183 \<or> c = 184)"

definition excerpt_space :: "nat \<Rightarrow> bool" where
  "excerpt_space c = ((9 \<le> c \<and> c \<le> 13) \<or> (28 \<le> c \<and> c \<le> 32) \<or> c = 133 \<or> c = 160)"

definition excerpt_fold :: "nat \<Rightarrow> nat list" where
  "excerpt_fold c =
     (if c = 181 then [956] else if c = 223 then [115, 115] else if c = 962 then [963]
      else excerpt_lower c)"

definition unicode_excerpt :: unicode_db where
  "unicode_excerpt =
     \<lparr>to_lower_full = excerpt_lower, is_cased = excerpt_cased,
      is_case_ignorable = excerpt_case_ignorable, is_space = excerpt_space,
      case_fold = excerpt_fold\<rparr>"



definition fixed_clock :: "real \<Rightarrow> clock" where
  "fixed_clock t = (\<lambda>n. t)"

definition clock_of :: "real list \<Rightarrow> clock" where
  "clock_of ts n = (if n < length ts then ts ! n else 0)"

definition init_world :: world where
  "init_world =
     \<lparr>media_cache = [], api_tracking = [], next_id = 0,
      circuit_breaker = new_CircuitBreaker 5 60, sleeps = [], calls = 0, ticks = 0\<rparr>"

definition steady_clock :: clock where
  "steady_clock = clock_of [10, 11, 12, 13, 14, 15, 16, 17]"

definition quirk_clock :: clock where
  "quirk_clock = clock_of [0, 0, 0, 0, 0, 100, 100, 100]"


text \<open>A call log with two recent calls to one provider and an old one to another.\<close>

definition logged_world :: world where
  "logged_world = init_world
     \<lparr>api_tracking :=
        [\<lparr>a_source = ''nasa'', a_query = [], a_success = True, a_response_time_ms = 120,
          a_error_message = None, a_created_at = 900\<rparr>,
         \<lparr>a_source = ''nasa'', a_query = [], a_success = False, a_response_time_ms = 80,
          a_error_message = Some ''timeout'', a_created_at = 950\<rparr>,
         \<lparr>a_source = ''pexels'', a_query = [], a_success = False, a_response_time_ms = 70,
          a_error_message = Some ''timeout'', a_created_at = -5000\<rparr>]\<rparr>"

text \<open>
  A cache with three rows for one query: a plain one, a better one, and the best one,
  which has expired by time 100.
\<close>

definition example_row :: "nat \<Rightarrow> string \<Rightarrow> string \<Rightarrow> int \<Rightarrow> int \<Rightarrow> real \<Rightarrow> media_row" where
  "example_row i src h quality uses expires =
     \<lparr>m_id = i, m_query = (codepoints ''mars rover''), m_source = src,
      m_media_url = ''https://'' @ src @ ''/'' @ h, m_local_path = ''temp.dat'',
      m_file_hash = h, m_media_type = ''image'', m_resolution = None, m_file_size = 1000,
      m_quality_score = quality, m_use_count = uses, m_last_used_at = None,
      m_expires_at = expires\<rparr>"

definition cached_world :: world where
  "cached_world = init_world
     \<lparr>media_cache :=
        [example_row 0 ''nasa'' ''h0'' 5 2 1000,
         example_row 1 ''pexels'' ''h1'' 7 0 1000,
         example_row 2 ''pixabay'' ''h2'' 9 9 50],
      next_id := 3\<rparr>"

text \<open>An operation that raises on its first two invocations and then returns a URL.\<close>

definition flaky_operation :: "string operation" where
  "flaky_operation n = (if n < 2 then Inl ''HTTP 503'' else Inr (Some ''https://nasa/a.jpg''))"

text \<open>An operation that always raises.\<close>

definition failing_operation :: "string operation" where
  "failing_operation n = Inl ''HTTP 503''"

text \<open>A network on which every provider call raises.\<close>

definition down_network :: network where
  "down_network n provider query = Inl ''connection refused''"



section \<open>Circuit breaker\<close>

lemmas breaker_defs =
  is_open_def record_failure_def record_success_def set_failures_def
  set_last_failure_time_def time_time_def get_or_zero_def

lemma is_open_iff:
  assumes "0 < failure_threshold (circuit_breaker w)"
  shows "fst (is_open clk source w) \<longleftrightarrow>
     (failure_threshold (circuit_breaker w) \<le> get_or_zero (failures (circuit_breaker w)) source \<and>
      clk (ticks w) - get_or_zero (last_failure_time (circuit_breaker w)) source
        < real_of_int (timeout (circuit_breaker w)))"
  using assms
  by (auto simp: breaker_defs Let_def split: option.splits)

lemma is_open_present_iff:
  assumes "failures (circuit_breaker w) source = Some n"
  shows "fst (is_open clk source w) \<longleftrightarrow>
     (failure_threshold (circuit_breaker w) \<le> n \<and>
      clk (ticks w) - get_or_zero (last_failure_time (circuit_breaker w)) source
        < real_of_int (timeout (circuit_breaker w)))"
  using assms
  by (auto simp: breaker_defs Let_def split: option.splits)

lemma is_open_True_keeps:
  "fst (is_open clk source w) \<Longrightarrow> snd (is_open clk source w) = w\<lparr>ticks := Suc (ticks w)\<rparr>"
  by (auto simp: breaker_defs Let_def split: option.splits if_splits)

lemma record_failure_fields:
  "failures (circuit_breaker (record_failure clk source w)) =
     (failures (circuit_breaker w))(source \<mapsto> get_or_zero (failures (circuit_breaker w)) source + 1)"
  "last_failure_time (circuit_breaker (record_failure clk source w)) =
     (last_failure_time (circuit_breaker w))(source \<mapsto> clk (ticks w))"
  "failure_threshold (circuit_breaker (record_failure clk source w)) = failure_threshold (circuit_breaker w)"
  "timeout (circuit_breaker (record_failure clk source w)) = timeout (circuit_breaker w)"
  "ticks (record_failure clk source w) = Suc (ticks w)"
  "calls (record_failure clk source w) = calls w"
  "sleeps (record_failure clk source w) = sleeps w"
  "api_tracking (record_failure clk source w) = api_tracking w"
  "media_cache (record_failure clk source w) = media_cache w"
  "next_id (record_failure clk source w) = next_id w"
  by (simp_all add: breaker_defs Let_def)

lemma record_success_fields:
  "failures (circuit_breaker (record_success source w)) = (failures (circuit_breaker w))(source \<mapsto> 0)"
  "last_failure_time (circuit_breaker (record_success source w)) = last_failure_time (circuit_breaker w)"
  "failure_threshold (circuit_breaker (record_success source w)) = failure_threshold (circuit_breaker w)"
  "timeout (circuit_breaker (record_success source w)) = timeout (circuit_breaker w)"
  "ticks (record_success source w) = ticks w"
  "calls (record_success source w) = calls w"
  "sleeps (record_success source w) = sleeps w"
  "api_tracking (record_success source w) = api_tracking w"
  "media_cache (record_success source w) = media_cache w"
  "next_id (record_success source w) = next_id w"
  by (simp_all add: breaker_defs Let_def)

lemma funpow_record_failure:
  "get_or_zero (failures (circuit_breaker ((record_failure clk source ^^ n) w))) source
     = get_or_zero (failures (circuit_breaker w)) source + int n \<and>
   failure_threshold (circuit_breaker ((record_failure clk source ^^ n) w)) = failure_threshold (circuit_breaker w) \<and>
   timeout (circuit_breaker ((record_failure clk source ^^ n) w)) = timeout (circuit_breaker w) \<and>
   ticks ((record_failure clk source ^^ n) w) = ticks w + n \<and>
   (0 < n \<longrightarrow> last_failure_time (circuit_breaker ((record_failure clk source ^^ n) w)) source
      = Some (clk (ticks w + n - 1)))"
  by (induction n) (auto simp: record_failure_fields get_or_zero_def)

text \<open>
  Claim C1. For a breaker with a positive threshold and every source: \<open>is_open\<close> returns
  true exactly when the recorded failure count (\<^verbatim>\<open>failures.get(source, 0)\<close>) is at least
  the threshold and the clock reading of the check lies less than the timeout after the
  last recorded failure; a check that returns true leaves the breaker as it is; after \<open>n\<close>
  consecutive \<open>record_failure\<close> calls, \<open>n\<close> at least the threshold, on a count that was
  not negative, every check made before the next recording returns true exactly while
  its reading is less than the timeout after the reading of the last failure (so at once,
  and until the timeout has elapsed); and one \<open>record_success\<close> sets the count to 0 and
  makes \<open>is_open\<close> false.
\<close>

theorem circuit_breaker_state_machine:
  assumes thr: "0 < failure_threshold (circuit_breaker w)"
  shows
    "(fst (is_open clk source w) \<longleftrightarrow>
        failure_threshold (circuit_breaker w) \<le> get_or_zero (failures (circuit_breaker w)) source \<and>
        clk (ticks w) - get_or_zero (last_failure_time (circuit_breaker w)) source
          < real_of_int (timeout (circuit_breaker w))) \<and>
     (fst (is_open clk source w) \<longrightarrow>
        circuit_breaker (snd (is_open clk source w)) = circuit_breaker w) \<and>
     (\<forall>n w'. failure_threshold (circuit_breaker w) \<le> int n \<and>
         0 \<le> get_or_zero (failures (circuit_breaker w)) source \<and>
         circuit_breaker w' = circuit_breaker ((record_failure clk source ^^ n) w) \<longrightarrow>
         (fst (is_open clk source w') \<longleftrightarrow>
            clk (ticks w') - clk (ticks w + n - 1) < real_of_int (timeout (circuit_breaker w)))) \<and>
     get_or_zero (failures (circuit_breaker (record_success source w))) source = 0 \<and>
     \<not> fst (is_open clk source (record_success source w))"
proof (intro conjI allI impI)
  show "fst (is_open clk source w) \<longleftrightarrow>
        failure_threshold (circuit_breaker w) \<le> get_or_zero (failures (circuit_breaker w)) source \<and>
        clk (ticks w) - get_or_zero (last_failure_time (circuit_breaker w)) source
          < real_of_int (timeout (circuit_breaker w))"
    by (rule is_open_iff [OF thr])
next
  assume "fst (is_open clk source w)"
  then show "circuit_breaker (snd (is_open clk source w)) = circuit_breaker w"
    by (simp add: is_open_True_keeps)
next
  fix n and w' :: world
  assume h: "failure_threshold (circuit_breaker w) \<le> int n \<and>
         0 \<le> get_or_zero (failures (circuit_breaker w)) source \<and>
         circuit_breaker w' = circuit_breaker ((record_failure clk source ^^ n) w)"
  let ?wn = "(record_failure clk source ^^ n) w"
  note fp = funpow_record_failure [where clk = clk and source = source and n = n and w = w]
  from h thr have npos: "0 < n" by linarith
  have thr': "0 < failure_threshold (circuit_breaker w')"
    using h thr fp by simp
  have cnt: "failure_threshold (circuit_breaker w') \<le> get_or_zero (failures (circuit_breaker w')) source"
    using h fp by simp
  have lst: "get_or_zero (last_failure_time (circuit_breaker w')) source = clk (ticks w + n - 1)"
    using h fp npos by (simp add: get_or_zero_def)
  have tmo: "timeout (circuit_breaker w') = timeout (circuit_breaker w)"
    using h fp by simp
  show "fst (is_open clk source w') \<longleftrightarrow>
            clk (ticks w') - clk (ticks w + n - 1) < real_of_int (timeout (circuit_breaker w))"
    using is_open_iff [OF thr', where clk = clk and source = source] cnt lst tmo by simp
next
  show "get_or_zero (failures (circuit_breaker (record_success source w))) source = 0"
    by (simp add: record_success_fields get_or_zero_def)
next
  show "\<not> fst (is_open clk source (record_success source w))"
    using thr is_open_present_iff [where w = "record_success source w" and source = source and n = 0 and clk = clk]
    by (simp add: record_success_fields)
qed

theorem circuit_breaker_state_machine_witness:
  "0 < failure_threshold (circuit_breaker init_world) \<and>
   fst (is_open steady_clock ''nasa'' ((record_failure steady_clock ''nasa'' ^^ 5) init_world)) \<and>
   \<not> fst (is_open steady_clock ''nasa''
           (record_success ''nasa'' ((record_failure steady_clock ''nasa'' ^^ 5) init_world)))"
proof -
  have thr: "0 < failure_threshold (circuit_breaker init_world)"
    by (simp add: init_world_def new_CircuitBreaker_def)
  let ?w5 = "(record_failure steady_clock ''nasa'' ^^ 5) init_world"
  note fp = funpow_record_failure [where clk = steady_clock and source = "''nasa''"
      and n = 5 and w = init_world]
  have thr5: "0 < failure_threshold (circuit_breaker ?w5)"
    using fp thr by simp
  have "failure_threshold (circuit_breaker init_world) \<le> int 5 \<and>
         0 \<le> get_or_zero (failures (circuit_breaker init_world)) ''nasa'' \<and>
         circuit_breaker ?w5 = circuit_breaker ?w5 \<longrightarrow>
         (fst (is_open steady_clock ''nasa'' ?w5) \<longleftrightarrow>
            steady_clock (ticks ?w5) - steady_clock (ticks init_world + 5 - 1)
              < real_of_int (timeout (circuit_breaker init_world)))"
    using circuit_breaker_state_machine [OF thr, where clk = steady_clock and source = "''nasa''"]
    by blast
  then have a: "fst (is_open steady_clock ''nasa'' ?w5)"
    using fp
    by (simp add: init_world_def new_CircuitBreaker_def get_or_zero_def
        steady_clock_def clock_of_def)
  have b: "\<not> fst (is_open steady_clock ''nasa'' (record_success ''nasa'' ?w5))"
    using circuit_breaker_state_machine [OF thr5, where clk = steady_clock and source = "''nasa''"]
    by blast
  from thr a b show ?thesis by blast
qed

text \<open>
  Claim C2 as stated fails: five failures trip the default breaker at time 0; the check
  at time 100 (timeout 60) resets the count and returns false; one further failure at
  time 100 leaves the count at 1, and the check that follows returns false.
\<close>

theorem time_reset_counterexample:
  "failure_threshold (circuit_breaker ((record_failure quirk_clock ''nasa'' ^^ 5) init_world))
     \<le> get_or_zero (failures (circuit_breaker ((record_failure quirk_clock ''nasa'' ^^ 5) init_world))) ''nasa'' \<and>
   \<not> fst (is_open quirk_clock ''nasa'' ((record_failure quirk_clock ''nasa'' ^^ 5) init_world)) \<and>
   \<not> fst (is_open quirk_clock ''nasa''
         (record_failure quirk_clock ''nasa''
            (snd (is_open quirk_clock ''nasa''
               ((record_failure quirk_clock ''nasa'' ^^ 5) init_world)))))"
  by (simp add: eval_nat_numeral breaker_defs init_world_def new_CircuitBreaker_def
      quirk_clock_def clock_of_def)


lemma is_open_False_count:
  assumes "failure_threshold (circuit_breaker w) \<le> get_or_zero (failures (circuit_breaker w)) source"
    and "\<not> fst (is_open clk source w)"
  shows "get_or_zero (failures (circuit_breaker (snd (is_open clk source w)))) source = 0"
  using assms
  by (auto simp: breaker_defs Let_def split: option.splits if_splits)

lemma is_open_frame:
  "failure_threshold (circuit_breaker (snd (is_open clk source w))) = failure_threshold (circuit_breaker w)"
  "timeout (circuit_breaker (snd (is_open clk source w))) = timeout (circuit_breaker w)"
  "last_failure_time (circuit_breaker (snd (is_open clk source w))) = last_failure_time (circuit_breaker w)"
  "calls (snd (is_open clk source w)) = calls w"
  "sleeps (snd (is_open clk source w)) = sleeps w"
  "api_tracking (snd (is_open clk source w)) = api_tracking w"
  "media_cache (snd (is_open clk source w)) = media_cache w"
  "next_id (snd (is_open clk source w)) = next_id w"
  by (auto simp: breaker_defs Let_def split: option.splits if_splits)

text \<open>
  Claim C2, amended. For every source whose failure count is at least the threshold, a
  check made once the timeout has elapsed since the last failure returns false and
  leaves the count at 0; the next \<open>record_failure\<close> brings the count to 1, so that
  single failure re-opens the circuit only if the threshold is at most 1; in general
  the circuit is open after \<open>k\<close> further consecutive failures only if \<open>k\<close> has reached
  the threshold.
\<close>

theorem time_reset_then_failures:
  assumes over: "failure_threshold (circuit_breaker w)
                   \<le> get_or_zero (failures (circuit_breaker w)) source"
    and late: "real_of_int (timeout (circuit_breaker w))
                 \<le> clk (ticks w) - get_or_zero (last_failure_time (circuit_breaker w)) source"
  shows
    "\<not> fst (is_open clk source w) \<and>
     get_or_zero (failures (circuit_breaker (snd (is_open clk source w)))) source = 0 \<and>
     failures (circuit_breaker (record_failure clk source (snd (is_open clk source w)))) source
       = Some 1 \<and>
     (fst (is_open clk source (record_failure clk source (snd (is_open clk source w)))) \<longrightarrow>
        failure_threshold (circuit_breaker w) \<le> 1) \<and>
     (\<forall>k. fst (is_open clk source ((record_failure clk source ^^ k) (snd (is_open clk source w))))
        \<longrightarrow> failure_threshold (circuit_breaker w) \<le> int k)"
proof -
  let ?w1 = "snd (is_open clk source w)"
  have closed: "\<not> fst (is_open clk source w)"
    using late by (auto simp: breaker_defs Let_def split: option.splits)
  have zero: "get_or_zero (failures (circuit_breaker ?w1)) source = 0"
    by (rule is_open_False_count [OF over closed])
  have one: "failures (circuit_breaker (record_failure clk source ?w1)) source = Some 1"
    using zero by (simp add: record_failure_fields)
  have after: "failure_threshold (circuit_breaker w) \<le> int k"
    if op: "fst (is_open clk source ((record_failure clk source ^^ k) ?w1))" for k
  proof -
    let ?wk = "(record_failure clk source ^^ k) ?w1"
    note fp = funpow_record_failure [where clk = clk and source = source and n = k and w = ?w1]
    from op obtain n where n: "failures (circuit_breaker ?wk) source = Some n"
      by (auto simp: is_open_def split: option.splits)
    then have "n = int k" using fp zero by (simp add: get_or_zero_def)
    with op n show ?thesis
      using is_open_present_iff [OF n, of clk] fp by (simp add: is_open_frame)
  qed
  have single: "failure_threshold (circuit_breaker w) \<le> 1"
    if "fst (is_open clk source (record_failure clk source ?w1))"
    using after [of 1] that by simp
  from closed zero one single after show ?thesis by blast
qed

theorem time_reset_then_failures_witness:
  "failure_threshold (circuit_breaker ((record_failure quirk_clock ''nasa'' ^^ 5) init_world))
     \<le> get_or_zero (failures (circuit_breaker ((record_failure quirk_clock ''nasa'' ^^ 5) init_world))) ''nasa'' \<and>
   real_of_int (timeout (circuit_breaker ((record_failure quirk_clock ''nasa'' ^^ 5) init_world)))
     \<le> quirk_clock (ticks ((record_failure quirk_clock ''nasa'' ^^ 5) init_world))
        - get_or_zero (last_failure_time (circuit_breaker ((record_failure quirk_clock ''nasa'' ^^ 5) init_world))) ''nasa'' \<and>
   failures (circuit_breaker (record_failure quirk_clock ''nasa''
      (snd (is_open quirk_clock ''nasa'' ((record_failure quirk_clock ''nasa'' ^^ 5) init_world))))) ''nasa''
     = Some 1"
proof -
  let ?w = "(record_failure quirk_clock ''nasa'' ^^ 5) init_world"
  note fp = funpow_record_failure [where clk = quirk_clock and source = "''nasa''"
      and n = 5 and w = init_world]
  have over: "failure_threshold (circuit_breaker ?w)
                \<le> get_or_zero (failures (circuit_breaker ?w)) ''nasa''"
    using fp by (simp add: init_world_def new_CircuitBreaker_def get_or_zero_def)
  have late: "real_of_int (timeout (circuit_breaker ?w))
                \<le> quirk_clock (ticks ?w) - get_or_zero (last_failure_time (circuit_breaker ?w)) ''nasa''"
    using fp by (simp add: init_world_def new_CircuitBreaker_def get_or_zero_def
        quirk_clock_def clock_of_def)
  from time_reset_then_failures [where clk = quirk_clock, OF over late] over late
  show ?thesis by blast
qed

section \<open>Resource governor\<close>

text \<open>
  Claim C9. \<open>get_optimal_workers\<close> is a step function of the available memory (in
  bytes, one GB being \<open>1024 ^ 3\<close>): below 4 GB it returns \<open>min_workers\<close>; from 4 GB to
  below 8 GB it returns \<open>min (cpu_count div 2) max_workers\<close>, raised to \<open>min_workers\<close>;
  from 8 GB on it returns \<open>min cpu_count max_workers\<close>, raised to \<open>min_workers\<close>; and
  with \<open>min_workers = 2\<close>, \<open>max_workers = 8\<close> it returns 2 below 4 GB for every CPU
  count.
\<close>

theorem get_optimal_workers_steps:
  "(available < 4 * 1024 ^ 3 \<longrightarrow>
      get_optimal_workers cpu available min_workers max_workers = min_workers) \<and>
   (4 * 1024 ^ 3 \<le> available \<and> available < 8 * 1024 ^ 3 \<longrightarrow>
      get_optimal_workers cpu available min_workers max_workers
        = max min_workers (min (cpu div 2) max_workers)) \<and>
   (8 * 1024 ^ 3 \<le> available \<longrightarrow>
      get_optimal_workers cpu available min_workers max_workers
        = max min_workers (min cpu max_workers)) \<and>
   (available < 4 * 1024 ^ 3 \<longrightarrow> get_optimal_workers cpu available 2 8 = 2)"
proof -
  have gb: "real_of_int available / 1024 ^ 3 < real_of_int k \<longleftrightarrow> available < k * 1024 ^ 3" for k
  proof -
    have "real_of_int available / 1024 ^ 3 < real_of_int k
            \<longleftrightarrow> real_of_int available < real_of_int k * 1024 ^ 3"
      by (simp add: pos_divide_less_eq)
    also have "\<dots> \<longleftrightarrow> real_of_int available < real_of_int (k * 1024 ^ 3)"
      by simp
    also have "\<dots> \<longleftrightarrow> available < k * 1024 ^ 3"
      by (rule of_int_less_iff)
    finally show ?thesis .
  qed
  show ?thesis
    using gb [of 4] gb [of 8]
    by (simp add: get_optimal_workers_def Let_def)
qed

theorem get_optimal_workers_steps_witness:
  "(3 * 1024 ^ 3 :: int) < 4 * 1024 ^ 3 \<and> get_optimal_workers 64 (3 * 1024 ^ 3) 2 8 = 2 \<and>
   (4 * 1024 ^ 3 :: int) \<le> 6 * 1024 ^ 3 \<and> (6 * 1024 ^ 3 :: int) < 8 * 1024 ^ 3 \<and>
   get_optimal_workers 6 (6 * 1024 ^ 3) 2 8 = 3 \<and>
   (8 * 1024 ^ 3 :: int) \<le> 16 * 1024 ^ 3 \<and> get_optimal_workers 6 (16 * 1024 ^ 3) 2 8 = 6"
  using get_optimal_workers_steps [of "3 * 1024 ^ 3" 64 2 8]
    get_optimal_workers_steps [of "6 * 1024 ^ 3" 6 2 8]
    get_optimal_workers_steps [of "16 * 1024 ^ 3" 6 2 8]
  by simp

section \<open>Health aggregate\<close>


text \<open>
  Claim C8. For every source and window: when no row of the call log has that source
  and a creation time after the cutoff (the reading of the clock minus the window),
  \<open>get_api_health\<close> reports success rate 1 and zero total calls; otherwise the success
  rate is the number of successful rows among them divided by their number, which is
  the total reported.
\<close>

theorem get_api_health_rate:
  "(filter (\<lambda>r. a_source r = source \<and> clk (ticks w) - real_of_int minutes * 60 < a_created_at r)
      (api_tracking w) = [] \<longrightarrow>
      success_rate (fst (get_api_health clk source minutes w)) = 1 \<and>
      total_calls (fst (get_api_health clk source minutes w)) = 0) \<and>
   (filter (\<lambda>r. a_source r = source \<and> clk (ticks w) - real_of_int minutes * 60 < a_created_at r)
      (api_tracking w) \<noteq> [] \<longrightarrow>
      success_rate (fst (get_api_health clk source minutes w)) =
        real (length (filter (\<lambda>r. a_source r = source \<and>
                clk (ticks w) - real_of_int minutes * 60 < a_created_at r \<and> a_success r)
                (api_tracking w)))
        / real (length (filter (\<lambda>r. a_source r = source \<and>
                clk (ticks w) - real_of_int minutes * 60 < a_created_at r) (api_tracking w))) \<and>
      total_calls (fst (get_api_health clk source minutes w)) =
        length (filter (\<lambda>r. a_source r = source \<and>
                clk (ticks w) - real_of_int minutes * 60 < a_created_at r) (api_tracking w)))"
  by (simp add: get_api_health_def time_time_def Let_def conj_commute conj_left_commute)

theorem get_api_health_rate_witness:
  "filter (\<lambda>r. a_source r = ''pexels'' \<and>
       fixed_clock 1000 (ticks logged_world) - real_of_int 30 * 60 < a_created_at r)
     (api_tracking logged_world) = [] \<and>
   success_rate (fst (get_api_health (fixed_clock 1000) ''pexels'' 30 logged_world)) = 1 \<and>
   filter (\<lambda>r. a_source r = ''nasa'' \<and>
       fixed_clock 1000 (ticks logged_world) - real_of_int 30 * 60 < a_created_at r)
     (api_tracking logged_world) \<noteq> [] \<and>
   success_rate (fst (get_api_health (fixed_clock 1000) ''nasa'' 30 logged_world)) = 1 / 2"
  using get_api_health_rate [of "''pexels''" "fixed_clock 1000" logged_world 30]
    get_api_health_rate [of "''nasa''" "fixed_clock 1000" logged_world 30]
  by (simp add: logged_world_def init_world_def fixed_clock_def)

section \<open>Query normalisation\<close>




















section \<open>Content cache\<close>


lemma order_desc_head:
  assumes "order_desc rows = m # rest"
  shows "m \<in> set rows \<and>
         (\<forall>r\<in>set rows. m_quality_score r < m_quality_score m \<or>
            (m_quality_score r = m_quality_score m \<and> m_use_count r \<le> m_use_count m))"
proof -
  let ?f = "\<lambda>r. (- m_quality_score r, - m_use_count r)"
  have s: "set (order_desc rows) = set rows" by (simp add: order_desc_def)
  have "sorted (map ?f (order_desc rows))" by (simp add: order_desc_def)
  with assms have le: "\<forall>r\<in>set rest. ?f m \<le> ?f r" by simp
  have m: "m \<in> set rows" using s assms by auto
  have "m_quality_score r < m_quality_score m \<or>
        (m_quality_score r = m_quality_score m \<and> m_use_count r \<le> m_use_count m)"
    if "r \<in> set rows" for r
  proof -
    from that s assms have "r = m \<or> r \<in> set rest" by auto
    then show ?thesis using le by auto
  qed
  with m show ?thesis by blast
qed

lemma order_desc_Nil: "order_desc rows = [] \<longleftrightarrow> rows = []"
proof -
  have "set (order_desc rows) = set rows" by (simp add: order_desc_def)
  then show ?thesis by (metis set_empty)
qed

lemma get_cached_media_unfold:
  "get_cached_media uni clk query source w =
     (case order_desc (filter (media_filter (normalize_query uni query) (clk (ticks w)) source)
                         (media_cache w)) of
        [] \<Rightarrow> (None, w\<lparr>ticks := Suc (ticks w)\<rparr>)
      | m # _ \<Rightarrow>
          (Some m,
           w\<lparr>ticks := Suc (Suc (ticks w)),
             media_cache := map (\<lambda>r. if m_id r = m_id m
                                     then r\<lparr>m_last_used_at := Some (clk (Suc (ticks w))),
                                            m_use_count := m_use_count m + 1\<rparr>
                                     else r) (media_cache w)\<rparr>))"
  by (cases "order_desc (filter (media_filter (normalize_query uni query) (clk (ticks w)) source)
                           (media_cache w))")
     (simp_all add: get_cached_media_def time_time_def Let_def)

lemma get_cached_media_fst:
  "fst (get_cached_media uni clk query source w) =
     (case order_desc (filter (media_filter (normalize_query uni query) (clk (ticks w)) source)
                         (media_cache w)) of
        [] \<Rightarrow> None | m # _ \<Rightarrow> Some m)"
  by (simp add: get_cached_media_unfold split: list.splits)


lemma get_cached_media_Some:
  "fst (get_cached_media uni clk query source w) = Some m \<Longrightarrow>
     snd (get_cached_media uni clk query source w) =
       w\<lparr>ticks := Suc (Suc (ticks w)),
         media_cache := map (\<lambda>r. if m_id r = m_id m
                                 then r\<lparr>m_last_used_at := Some (clk (Suc (ticks w))),
                                        m_use_count := m_use_count m + 1\<rparr>
                                 else r) (media_cache w)\<rparr>"
  by (simp add: get_cached_media_unfold split: list.splits)

lemma map_bump_distinct:
  assumes "distinct (map m_id rows)" "m \<in> set rows"
  shows "map (\<lambda>r. if m_id r = m_id m then f r else r) rows
         = map (\<lambda>r. if r = m then f r else r) rows"
proof (rule map_cong [OF refl])
  fix r assume "r \<in> set rows"
  with assms have "m_id r = m_id m \<longleftrightarrow> r = m"
    by (meson distinct_map inj_onD)
  then show "(if m_id r = m_id m then f r else r) = (if r = m then f r else r)" by simp
qed

text \<open>
  Claim C4. \<open>get_cached_media\<close> returns no row when no row of the table passes the
  filters (normalised query, expiry after the reading of the clock, source when given).
  Otherwise the row it returns is in the table, passes the filters (so its expiry has
  not passed), and no row passing the filters has a higher quality score, or the same
  quality score and a higher use count; the quality score and use count of the result
  are the same for every table holding the same rows, whatever their order; and, the
  ids of the table being distinct, the table afterwards is the old one with the returned
  row's use count raised by one and its last-used time set to the second reading of the
  clock.
\<close>

theorem get_cached_media_best:
  "case fst (get_cached_media uni clk query source w) of
     None \<Rightarrow>
       \<forall>r\<in>set (media_cache w). \<not> media_filter (normalize_query uni query) (clk (ticks w)) source r
   | Some m \<Rightarrow>
       m \<in> set (media_cache w) \<and>
       media_filter (normalize_query uni query) (clk (ticks w)) source m \<and>
       clk (ticks w) < m_expires_at m \<and>
       (\<forall>r\<in>set (media_cache w).
          media_filter (normalize_query uni query) (clk (ticks w)) source r \<longrightarrow>
          m_quality_score r < m_quality_score m \<or>
          (m_quality_score r = m_quality_score m \<and> m_use_count r \<le> m_use_count m)) \<and>
       (\<forall>w2. set (media_cache w2) = set (media_cache w) \<and> ticks w2 = ticks w \<longrightarrow>
          (\<exists>m2. fst (get_cached_media uni clk query source w2) = Some m2 \<and>
                m_quality_score m2 = m_quality_score m \<and> m_use_count m2 = m_use_count m)) \<and>
       (distinct (map m_id (media_cache w)) \<longrightarrow>
          media_cache (snd (get_cached_media uni clk query source w)) =
            map (\<lambda>r. if r = m
                      then m\<lparr>m_last_used_at := Some (clk (Suc (ticks w))),
                             m_use_count := m_use_count m + 1\<rparr>
                      else r) (media_cache w))"
proof (cases "fst (get_cached_media uni clk query source w)")
  case None
  let ?P = "media_filter (normalize_query uni query) (clk (ticks w)) source"
  from None have "order_desc (filter ?P (media_cache w)) = []"
    by (simp add: get_cached_media_fst split: list.splits)
  then have "filter ?P (media_cache w) = []" by (simp add: order_desc_Nil)
  then have "\<forall>r\<in>set (media_cache w). \<not> ?P r" by (simp add: filter_empty_conv)
  with None show ?thesis by simp
next
  case (Some m)
  let ?P = "media_filter (normalize_query uni query) (clk (ticks w)) source"
  from Some obtain rest where od: "order_desc (filter ?P (media_cache w)) = m # rest"
    by (auto simp: get_cached_media_fst split: list.splits)
  note hd = order_desc_head [OF od]
  have mem: "m \<in> set (media_cache w)" and filt: "?P m" using hd by auto
  have fresh: "clk (ticks w) < m_expires_at m" using filt by (simp add: media_filter_def)
  have best: "\<forall>r\<in>set (media_cache w). ?P r \<longrightarrow>
          m_quality_score r < m_quality_score m \<or>
          (m_quality_score r = m_quality_score m \<and> m_use_count r \<le> m_use_count m)"
    using hd by auto
  have order: "\<exists>m2. fst (get_cached_media uni clk query source w2) = Some m2 \<and>
                m_quality_score m2 = m_quality_score m \<and> m_use_count m2 = m_use_count m"
    if w2: "set (media_cache w2) = set (media_cache w) \<and> ticks w2 = ticks w" for w2 :: world
  proof -
    let ?rows2 = "filter ?P (media_cache w2)"
    have "m \<in> set ?rows2" using mem filt w2 by simp
    then have "?rows2 \<noteq> []" by (metis empty_iff empty_set)
    then have "order_desc ?rows2 \<noteq> []" by (simp add: order_desc_Nil)
    then obtain m2 rest2 where od2: "order_desc ?rows2 = m2 # rest2"
      by (cases "order_desc ?rows2") auto
    note hd2 = order_desc_head [OF od2]
    have "fst (get_cached_media uni clk query source w2) = Some m2"
      using od2 w2 by (simp add: get_cached_media_fst)
    moreover have "m_quality_score m2 = m_quality_score m \<and> m_use_count m2 = m_use_count m"
    proof -
      have a: "m_quality_score m < m_quality_score m2 \<or>
          (m_quality_score m = m_quality_score m2 \<and> m_use_count m \<le> m_use_count m2)"
        using hd2 mem filt w2 by auto
      have "m2 \<in> set (media_cache w) \<and> ?P m2" using hd2 w2 by auto
      then have b: "m_quality_score m2 < m_quality_score m \<or>
          (m_quality_score m2 = m_quality_score m \<and> m_use_count m2 \<le> m_use_count m)"
        using best by blast
      from a b show ?thesis by linarith
    qed
    ultimately show ?thesis by blast
  qed
  have bump: "media_cache (snd (get_cached_media uni clk query source w)) =
            map (\<lambda>r. if r = m
                      then m\<lparr>m_last_used_at := Some (clk (Suc (ticks w))),
                             m_use_count := m_use_count m + 1\<rparr>
                      else r) (media_cache w)"
    if d: "distinct (map m_id (media_cache w))"
  proof -
    have "map (\<lambda>r. if m_id r = m_id m
                   then r\<lparr>m_last_used_at := Some (clk (Suc (ticks w))),
                          m_use_count := m_use_count m + 1\<rparr>
                   else r) (media_cache w)
        = map (\<lambda>r. if r = m
                   then r\<lparr>m_last_used_at := Some (clk (Suc (ticks w))),
                          m_use_count := m_use_count m + 1\<rparr>
                   else r) (media_cache w)"
      by (rule map_bump_distinct [OF d mem])
    also have "\<dots> = map (\<lambda>r. if r = m
                   then m\<lparr>m_last_used_at := Some (clk (Suc (ticks w))),
                          m_use_count := m_use_count m + 1\<rparr>
                   else r) (media_cache w)"
      by (rule map_cong) auto
    finally show ?thesis by (simp add: get_cached_media_Some [OF Some])
  qed
  from mem filt fresh best order bump Some show ?thesis by simp
qed

theorem get_cached_media_best_witness:
  "fst (get_cached_media unicode_excerpt (fixed_clock 100) (codepoints ''Mars   ROVER '') None cached_world)
     = Some (example_row 1 ''pexels'' ''h1'' 7 0 1000) \<and>
   example_row 2 ''pixabay'' ''h2'' 9 9 50 \<in> set (media_cache cached_world) \<and>
   \<not> media_filter (normalize_query unicode_excerpt (codepoints ''Mars   ROVER '')) (fixed_clock 100 (ticks cached_world)) None
       (example_row 2 ''pixabay'' ''h2'' 9 9 50) \<and>
   distinct (map m_id (media_cache cached_world)) \<and>
   media_cache (snd (get_cached_media unicode_excerpt (fixed_clock 100) (codepoints ''Mars   ROVER '') None cached_world)) =
     [example_row 0 ''nasa'' ''h0'' 5 2 1000,
      (example_row 1 ''pexels'' ''h1'' 7 0 1000)\<lparr>m_last_used_at := Some 100, m_use_count := 1\<rparr>,
      example_row 2 ''pixabay'' ''h2'' 9 9 50]"
proof -
  have n: "normalize_query unicode_excerpt (codepoints ''Mars   ROVER '') = (codepoints ''mars rover'')" by code_simp
  have r: "fst (get_cached_media unicode_excerpt (fixed_clock 100) (codepoints ''Mars   ROVER '') None cached_world)
     = Some (example_row 1 ''pexels'' ''h1'' 7 0 1000)"
    by (simp add: get_cached_media_fst n cached_world_def init_world_def media_filter_def
        example_row_def fixed_clock_def order_desc_def)
  have d: "distinct (map m_id (media_cache cached_world))"
    by (simp add: cached_world_def example_row_def)
  show ?thesis
    using get_cached_media_best [where uni = unicode_excerpt and clk = "fixed_clock 100" and query = "codepoints ''Mars   ROVER ''"
        and source = None and w = cached_world] r d
    by (simp add: n cached_world_def init_world_def media_filter_def
        example_row_def fixed_clock_def)
qed






section \<open>Cache keys\<close>





section \<open>Retry executor\<close>

lemma failed_attempt_world:
  "record_failure clk source
     (track_api_call clk source [] False
        (py_int ((clk (Suc (ticks w)) - clk (ticks w)) * 1000)) (Some e)
        (snd (time_time clk (snd (call_func func (snd (time_time clk w)))))))
   = after_failures clk source (\<lambda>_. e) 1 w"
  by (rule world.equality)
     (simp_all add: Let_def time_time_def call_func_def track_api_call_def record_failure_def
        set_failures_def set_last_failure_time_def after_failures_def failure_row_def
        eval_nat_numeral)

lemma retry_step_failure:
  assumes "func (calls w) = Inl e"
  shows "retry_attempts clk func max_retries base_delay source (attempt # rest) w =
     (if int attempt = max_retries - 1 then (Inl e, after_failures clk source (\<lambda>_. e) 1 w)
      else if base_delay * 2 ^ attempt < 0
           then (Inl ''sleep length must be non-negative'',
                 after_failures clk source (\<lambda>_. e) 1 w)
           else retry_attempts clk func max_retries base_delay source rest
                  (time_sleep (base_delay * 2 ^ attempt)
                     (after_failures clk source (\<lambda>_. e) 1 w)))"
proof -
  have "retry_attempts clk func max_retries base_delay source (attempt # rest) w =
     (let w5 = record_failure clk source
                 (track_api_call clk source [] False
                    (py_int ((clk (Suc (ticks w)) - clk (ticks w)) * 1000)) (Some e)
                    (snd (time_time clk (snd (call_func func (snd (time_time clk w)))))))
      in if int attempt = max_retries - 1 then (Inl e, w5)
         else if base_delay * 2 ^ attempt < 0
              then (Inl ''sleep length must be non-negative'', w5)
              else retry_attempts clk func max_retries base_delay source rest
                     (time_sleep (base_delay * 2 ^ attempt) w5))"
    using assms by (simp add: Let_def time_time_def call_func_def)
  then show ?thesis by (simp only: failed_attempt_world Let_def)
qed


lemma retry_step_success:
  assumes "func (calls w) = Inr r"
  shows "retry_attempts clk func max_retries base_delay source (attempt # rest) w =
           (Inr r, after_success clk source w)"
proof -
  have "record_success source
          (track_api_call clk source [] True
             (py_int ((clk (Suc (ticks w)) - clk (ticks w)) * 1000)) None
             (snd (time_time clk (snd (call_func func (snd (time_time clk w)))))))
        = after_success clk source w"
    by (rule world.equality)
       (simp_all add: Let_def time_time_def call_func_def track_api_call_def
          record_success_def set_failures_def after_success_def eval_nat_numeral)
  moreover have "retry_attempts clk func max_retries base_delay source (attempt # rest) w =
     (Inr r, record_success source
          (track_api_call clk source [] True
             (py_int ((clk (Suc (ticks w)) - clk (ticks w)) * 1000)) None
             (snd (time_time clk (snd (call_func func (snd (time_time clk w))))))))"
    using assms by (simp add: Let_def time_time_def call_func_def)
  ultimately show ?thesis by simp
qed

lemma after_retries_0: "after_retries clk source base_delay errs 0 w = w"
  by (rule world.equality) (simp_all add: after_retries_def after_failures_def)

lemma after_retries_Suc:
  "time_sleep (base_delay * 2 ^ k)
     (after_failures clk source (\<lambda>_. errs k) 1 (after_retries clk source base_delay errs k w))
   = after_retries clk source base_delay errs (Suc k) w"
  by (rule world.equality)
     (auto simp: after_retries_def after_failures_def failure_row_def time_sleep_def
        get_or_zero_def add.commute add.left_commute intro!: CircuitBreaker.equality)

lemma after_retries_calls:
  "calls (after_retries clk source base_delay errs k w) = calls w + k"
  by (simp add: after_retries_def after_failures_def)

lemma retry_failed_prefix:
  assumes "\<forall>j<k. func (calls w + j) = Inl (errs j)" "int k < max_retries" "0 \<le> base_delay"
  shows "retry_attempts clk func max_retries base_delay source [0..<nat max_retries] w =
         retry_attempts clk func max_retries base_delay source [k..<nat max_retries]
           (after_retries clk source base_delay errs k w)"
  using assms
proof (induction k)
  case 0
  then show ?case by (simp add: after_retries_0)
next
  case (Suc k)
  let ?wk = "after_retries clk source base_delay errs k w"
  have fail: "func (calls ?wk) = Inl (errs k)"
    using Suc.prems(1) by (simp add: after_retries_calls)
  have lt: "k < nat max_retries" using Suc.prems(2) by linarith
  have notlast: "int k \<noteq> max_retries - 1" using Suc.prems(2) by linarith
  have delay: "\<not> base_delay * 2 ^ k < 0" using Suc.prems(3) by (simp add: not_less)
  have "retry_attempts clk func max_retries base_delay source [0..<nat max_retries] w =
        retry_attempts clk func max_retries base_delay source [k..<nat max_retries] ?wk"
    using Suc by simp
  also have "\<dots> = retry_attempts clk func max_retries base_delay source
                     (k # [Suc k..<nat max_retries]) ?wk"
    using lt by (simp add: upt_conv_Cons)
  also have "\<dots> = retry_attempts clk func max_retries base_delay source
                     [Suc k..<nat max_retries]
                     (time_sleep (base_delay * 2 ^ k)
                        (after_failures clk source (\<lambda>_. errs k) 1 ?wk))"
    using notlast delay
    by (simp only: retry_step_failure [where func = func and w = ?wk and e = "errs k", OF fail]
        if_False)
  finally show ?case by (simp only: after_retries_Suc)
qed


text \<open>
  Claim C5. Let \<open>max_retries \<ge> 1\<close> and \<open>base_delay \<ge> 0\<close>, and let the operation raise
  on its first \<open>k\<close> invocations, \<open>k < max_retries\<close>. If invocation \<open>k\<close> returns \<open>r\<close>,
  \<open>retry_with_backoff\<close> returns \<open>r\<close> at once: it has invoked the operation \<open>k + 1\<close> times
  and logged one row per attempt (\<open>k\<close> failures with their messages, then the success);
  it has slept \<open>base_delay * 2 ^ j\<close> after each failed attempt \<open>j\<close>; and the breaker has
  seen one update per attempt (the last failure time is the reading of the clock in the
  attempt before the success, and the success sets the count to 0). If invocation \<open>k\<close>
  raises \<open>e\<close> and \<open>k\<close> is the last allowed attempt, \<open>e\<close> propagates: again one row per
  attempt, the same sleeps and none after the last attempt, and the failure count has
  grown by one per attempt.
\<close>

theorem retry_with_backoff_attempts:
  assumes retries: "int k < max_retries"
    and delay: "0 \<le> base_delay"
    and failed: "\<forall>j<k. func (calls w + j) = Inl (errs j)"
  shows
    "(\<forall>r. func (calls w + k) = Inr r \<longrightarrow>
        (case retry_with_backoff clk func max_retries base_delay source w of
           (res, w') \<Rightarrow>
             res = Inr r \<and>
             calls w' = calls w + k + 1 \<and>
             api_tracking w' = api_tracking w @
               map (\<lambda>j. \<lparr>a_source = source, a_query = [], a_success = False,
                          a_response_time_ms =
                            py_int ((clk (ticks w + 4 * j + 1) - clk (ticks w + 4 * j)) * 1000),
                          a_error_message = Some (errs j),
                          a_created_at = clk (ticks w + 4 * j + 2)\<rparr>) [0..<k] @
               [\<lparr>a_source = source, a_query = [], a_success = True,
                 a_response_time_ms =
                   py_int ((clk (ticks w + 4 * k + 1) - clk (ticks w + 4 * k)) * 1000),
                 a_error_message = None,
                 a_created_at = clk (ticks w + 4 * k + 2)\<rparr>] \<and>
             sleeps w' = sleeps w @ map (\<lambda>j. base_delay * 2 ^ j) [0..<k] \<and>
             failures (circuit_breaker w') = (failures (circuit_breaker w))(source \<mapsto> 0) \<and>
             last_failure_time (circuit_breaker w') =
               (if k = 0 then last_failure_time (circuit_breaker w)
                else (last_failure_time (circuit_breaker w))
                       (source \<mapsto> clk (ticks w + 4 * k - 1))) \<and>
             ticks w' = ticks w + 4 * k + 3)) \<and>
     (\<forall>e. func (calls w + k) = Inl e \<and> int k = max_retries - 1 \<longrightarrow>
        (case retry_with_backoff clk func max_retries base_delay source w of
           (res, w') \<Rightarrow>
             res = Inl e \<and>
             calls w' = calls w + k + 1 \<and>
             api_tracking w' = api_tracking w @
               map (\<lambda>j. \<lparr>a_source = source, a_query = [], a_success = False,
                          a_response_time_ms =
                            py_int ((clk (ticks w + 4 * j + 1) - clk (ticks w + 4 * j)) * 1000),
                          a_error_message = Some (errs j),
                          a_created_at = clk (ticks w + 4 * j + 2)\<rparr>) [0..<k] @
               [\<lparr>a_source = source, a_query = [], a_success = False,
                 a_response_time_ms =
                   py_int ((clk (ticks w + 4 * k + 1) - clk (ticks w + 4 * k)) * 1000),
                 a_error_message = Some e,
                 a_created_at = clk (ticks w + 4 * k + 2)\<rparr>] \<and>
             sleeps w' = sleeps w @ map (\<lambda>j. base_delay * 2 ^ j) [0..<k] \<and>
             failures (circuit_breaker w') =
               (failures (circuit_breaker w))
                 (source \<mapsto> get_or_zero (failures (circuit_breaker w)) source + int k + 1) \<and>
             last_failure_time (circuit_breaker w') =
               (last_failure_time (circuit_breaker w))(source \<mapsto> clk (ticks w + 4 * k + 3)) \<and>
             ticks w' = ticks w + 4 * k + 4))"
proof -
  let ?wk = "after_retries clk source base_delay errs k w"
  have lt: "k < nat max_retries" using retries by linarith
  have prefix: "retry_with_backoff clk func max_retries base_delay source w =
      retry_attempts clk func max_retries base_delay source (k # [Suc k..<nat max_retries]) ?wk"
    using retry_failed_prefix [OF failed retries delay, of clk source] lt
    by (simp add: retry_with_backoff_def upt_conv_Cons)
  have rows: "map (failure_row clk source w errs) [0..<k] =
      map (\<lambda>j. \<lparr>a_source = source, a_query = [], a_success = False,
                 a_response_time_ms =
                   py_int ((clk (ticks w + 4 * j + 1) - clk (ticks w + 4 * j)) * 1000),
                 a_error_message = Some (errs j),
                 a_created_at = clk (ticks w + 4 * j + 2)\<rparr>) [0..<k]"
    by (simp add: failure_row_def)
  have ok: "case retry_with_backoff clk func max_retries base_delay source w of
           (res, w') \<Rightarrow>
             res = Inr r \<and>
             calls w' = calls w + k + 1 \<and>
             api_tracking w' = api_tracking w @
               map (\<lambda>j. \<lparr>a_source = source, a_query = [], a_success = False,
                          a_response_time_ms =
                            py_int ((clk (ticks w + 4 * j + 1) - clk (ticks w + 4 * j)) * 1000),
                          a_error_message = Some (errs j),
                          a_created_at = clk (ticks w + 4 * j + 2)\<rparr>) [0..<k] @
               [\<lparr>a_source = source, a_query = [], a_success = True,
                 a_response_time_ms =
                   py_int ((clk (ticks w + 4 * k + 1) - clk (ticks w + 4 * k)) * 1000),
                 a_error_message = None,
                 a_created_at = clk (ticks w + 4 * k + 2)\<rparr>] \<and>
             sleeps w' = sleeps w @ map (\<lambda>j. base_delay * 2 ^ j) [0..<k] \<and>
             failures (circuit_breaker w') = (failures (circuit_breaker w))(source \<mapsto> 0) \<and>
             last_failure_time (circuit_breaker w') =
               (if k = 0 then last_failure_time (circuit_breaker w)
                else (last_failure_time (circuit_breaker w))
                       (source \<mapsto> clk (ticks w + 4 * k - 1))) \<and>
             ticks w' = ticks w + 4 * k + 3"
    if r: "func (calls w + k) = Inr r" for r
  proof -
    have "func (calls ?wk) = Inr r" using r by (simp add: after_retries_calls)
    then have "retry_with_backoff clk func max_retries base_delay source w =
        (Inr r, after_success clk source ?wk)"
      using prefix by (simp only: retry_step_success)
    then show ?thesis
      by (simp add: after_success_def after_retries_def after_failures_def rows)
  qed
  have bad: "case retry_with_backoff clk func max_retries base_delay source w of
           (res, w') \<Rightarrow>
             res = Inl e \<and>
             calls w' = calls w + k + 1 \<and>
             api_tracking w' = api_tracking w @
               map (\<lambda>j. \<lparr>a_source = source, a_query = [], a_success = False,
                          a_response_time_ms =
                            py_int ((clk (ticks w + 4 * j + 1) - clk (ticks w + 4 * j)) * 1000),
                          a_error_message = Some (errs j),
                          a_created_at = clk (ticks w + 4 * j + 2)\<rparr>) [0..<k] @
               [\<lparr>a_source = source, a_query = [], a_success = False,
                 a_response_time_ms =
                   py_int ((clk (ticks w + 4 * k + 1) - clk (ticks w + 4 * k)) * 1000),
                 a_error_message = Some e,
                 a_created_at = clk (ticks w + 4 * k + 2)\<rparr>] \<and>
             sleeps w' = sleeps w @ map (\<lambda>j. base_delay * 2 ^ j) [0..<k] \<and>
             failures (circuit_breaker w') =
               (failures (circuit_breaker w))
                 (source \<mapsto> get_or_zero (failures (circuit_breaker w)) source + int k + 1) \<and>
             last_failure_time (circuit_breaker w') =
               (last_failure_time (circuit_breaker w))(source \<mapsto> clk (ticks w + 4 * k + 3)) \<and>
             ticks w' = ticks w + 4 * k + 4"
    if e: "func (calls w + k) = Inl e" and last: "int k = max_retries - 1" for e
  proof -
    have f: "func (calls ?wk) = Inl e" using e by (simp add: after_retries_calls)
    have "retry_with_backoff clk func max_retries base_delay source w =
        (Inl e, after_failures clk source (\<lambda>_. e) 1 ?wk)"
      using prefix last
      by (simp only: retry_step_failure [where func = func and w = ?wk and e = e, OF f]
          simp_thms if_True)
    then show ?thesis
      by (auto simp: after_retries_def after_failures_def rows failure_row_def get_or_zero_def
          add.commute add.left_commute)
  qed
  show ?thesis
  proof (intro conjI allI impI)
    fix r assume "func (calls w + k) = Inr r"
    then show "case retry_with_backoff clk func max_retries base_delay source w of
           (res, w') \<Rightarrow>
             res = Inr r \<and>
             calls w' = calls w + k + 1 \<and>
             api_tracking w' = api_tracking w @
               map (\<lambda>j. \<lparr>a_source = source, a_query = [], a_success = False,
                          a_response_time_ms =
                            py_int ((clk (ticks w + 4 * j + 1) - clk (ticks w + 4 * j)) * 1000),
                          a_error_message = Some (errs j),
                          a_created_at = clk (ticks w + 4 * j + 2)\<rparr>) [0..<k] @
               [\<lparr>a_source = source, a_query = [], a_success = True,
                 a_response_time_ms =
                   py_int ((clk (ticks w + 4 * k + 1) - clk (ticks w + 4 * k)) * 1000),
                 a_error_message = None,
                 a_created_at = clk (ticks w + 4 * k + 2)\<rparr>] \<and>
             sleeps w' = sleeps w @ map (\<lambda>j. base_delay * 2 ^ j) [0..<k] \<and>
             failures (circuit_breaker w') = (failures (circuit_breaker w))(source \<mapsto> 0) \<and>
             last_failure_time (circuit_breaker w') =
               (if k = 0 then last_failure_time (circuit_breaker w)
                else (last_failure_time (circuit_breaker w))
                       (source \<mapsto> clk (ticks w + 4 * k - 1))) \<and>
             ticks w' = ticks w + 4 * k + 3"
      by (rule ok)
  next
    fix e assume "func (calls w + k) = Inl e \<and> int k = max_retries - 1"
    then have "func (calls w + k) = Inl e" and "int k = max_retries - 1" by simp_all
    then show "case retry_with_backoff clk func max_retries base_delay source w of
           (res, w') \<Rightarrow>
             res = Inl e \<and>
             calls w' = calls w + k + 1 \<and>
             api_tracking w' = api_tracking w @
               map (\<lambda>j. \<lparr>a_source = source, a_query = [], a_success = False,
                          a_response_time_ms =
                            py_int ((clk (ticks w + 4 * j + 1) - clk (ticks w + 4 * j)) * 1000),
                          a_error_message = Some (errs j),
                          a_created_at = clk (ticks w + 4 * j + 2)\<rparr>) [0..<k] @
               [\<lparr>a_source = source, a_query = [], a_success = False,
                 a_response_time_ms =
                   py_int ((clk (ticks w + 4 * k + 1) - clk (ticks w + 4 * k)) * 1000),
                 a_error_message = Some e,
                 a_created_at = clk (ticks w + 4 * k + 2)\<rparr>] \<and>
             sleeps w' = sleeps w @ map (\<lambda>j. base_delay * 2 ^ j) [0..<k] \<and>
             failures (circuit_breaker w') =
               (failures (circuit_breaker w))
                 (source \<mapsto> get_or_zero (failures (circuit_breaker w)) source + int k + 1) \<and>
             last_failure_time (circuit_breaker w') =
               (last_failure_time (circuit_breaker w))(source \<mapsto> clk (ticks w + 4 * k + 3)) \<and>
             ticks w' = ticks w + 4 * k + 4"
      by (rule bad)
  qed
qed

theorem retry_with_backoff_attempts_witness:
  "fst (retry_with_backoff steady_clock flaky_operation 3 1 ''nasa'' init_world)
     = Inr (Some ''https://nasa/a.jpg'') \<and>
   calls (snd (retry_with_backoff steady_clock flaky_operation 3 1 ''nasa'' init_world)) = 3 \<and>
   map a_success
     (api_tracking (snd (retry_with_backoff steady_clock flaky_operation 3 1 ''nasa'' init_world)))
     = [False, False, True] \<and>
   sleeps (snd (retry_with_backoff steady_clock flaky_operation 3 1 ''nasa'' init_world)) = [1, 2] \<and>
   fst (retry_with_backoff steady_clock failing_operation 3 1 ''nasa'' init_world)
     = Inl ''HTTP 503'' \<and>
   sleeps (snd (retry_with_backoff steady_clock failing_operation 3 1 ''nasa'' init_world)) = [1, 2] \<and>
   failures (circuit_breaker
     (snd (retry_with_backoff steady_clock failing_operation 3 1 ''nasa'' init_world))) ''nasa''
     = Some 3"
proof -
  have k: "int 2 < 3" and d: "(0::real) \<le> 1" by simp_all
  have f1: "\<forall>j<2. flaky_operation (calls init_world + j) = Inl ''HTTP 503''"
    by (simp add: flaky_operation_def init_world_def)
  have f2: "\<forall>j<2. failing_operation (calls init_world + j) = Inl ''HTTP 503''"
    by (simp add: failing_operation_def)
  have r: "flaky_operation (calls init_world + 2) = Inr (Some ''https://nasa/a.jpg'')"
    by (simp add: flaky_operation_def init_world_def)
  have e: "failing_operation (calls init_world + 2) = Inl ''HTTP 503'' \<and> int 2 = 3 - 1"
    by (simp add: failing_operation_def)
  have u: "[0..<2] = [0, Suc 0]" by (simp add: numeral_2_eq_2)
  have a: "fst (retry_with_backoff steady_clock flaky_operation 3 1 ''nasa'' init_world)
     = Inr (Some ''https://nasa/a.jpg'') \<and>
   calls (snd (retry_with_backoff steady_clock flaky_operation 3 1 ''nasa'' init_world)) = 3 \<and>
   map a_success
     (api_tracking (snd (retry_with_backoff steady_clock flaky_operation 3 1 ''nasa'' init_world)))
     = [False, False, True] \<and>
   sleeps (snd (retry_with_backoff steady_clock flaky_operation 3 1 ''nasa'' init_world)) = [1, 2]"
    using retry_with_backoff_attempts [where k = 2 and max_retries = 3 and base_delay = 1
        and func = flaky_operation and w = init_world and errs = "\<lambda>_. ''HTTP 503''"
        and clk = steady_clock and source = "''nasa''", OF k d f1] r
    by (auto simp: init_world_def u split: prod.splits)
  have b: "fst (retry_with_backoff steady_clock failing_operation 3 1 ''nasa'' init_world)
     = Inl ''HTTP 503'' \<and>
   sleeps (snd (retry_with_backoff steady_clock failing_operation 3 1 ''nasa'' init_world)) = [1, 2] \<and>
   failures (circuit_breaker
     (snd (retry_with_backoff steady_clock failing_operation 3 1 ''nasa'' init_world))) ''nasa''
     = Some 3"
    using retry_with_backoff_attempts [where k = 2 and max_retries = 3 and base_delay = 1
        and func = failing_operation and w = init_world and errs = "\<lambda>_. ''HTTP 503''"
        and clk = steady_clock and source = "''nasa''", OF k d f2] e
    by (auto simp: init_world_def new_CircuitBreaker_def get_or_zero_def u split: prod.splits)
  from a b show ?thesis by blast
qed

section \<open>Acquisition orchestrator\<close>











text \<open>
  Claim C6. When the cache lookup for the query returns an entry,
  \<open>search_with_fallback\<close> returns that entry's URL and ends in the state the lookup left:
  no provider operation has been invoked, no row has been logged, nothing has slept and
  the breaker is as it was.
\<close>

theorem search_with_fallback_cache_hit:
  assumes hit: "fst (get_cached_media uni clk query None w) = Some media"
  shows "search_with_fallback uni clk net query prefer_video w =
           (Some (m_media_url media), snd (get_cached_media uni clk query None w)) \<and>
         calls (snd (search_with_fallback uni clk net query prefer_video w)) = calls w \<and>
         api_tracking (snd (search_with_fallback uni clk net query prefer_video w)) = api_tracking w \<and>
         circuit_breaker (snd (search_with_fallback uni clk net query prefer_video w))
           = circuit_breaker w \<and>
         sleeps (snd (search_with_fallback uni clk net query prefer_video w)) = sleeps w"
proof -
  have "search_with_fallback uni clk net query prefer_video w =
           (Some (m_media_url media), snd (get_cached_media uni clk query None w))"
    using hit by (simp add: search_with_fallback_def case_prod_beta)
  then show ?thesis
    by (simp add: get_cached_media_Some [OF hit])
qed

theorem search_with_fallback_cache_hit_witness:
  "fst (get_cached_media unicode_excerpt (fixed_clock 100) (codepoints ''Mars Rover'') None cached_world)
     = Some (example_row 1 ''pexels'' ''h1'' 7 0 1000) \<and>
   fst (search_with_fallback unicode_excerpt (fixed_clock 100) down_network (codepoints ''Mars Rover'') False cached_world)
     = Some ''https://pexels/h1'' \<and>
   calls (snd (search_with_fallback unicode_excerpt (fixed_clock 100) down_network (codepoints ''Mars Rover'') False
            cached_world)) = 0"
proof -
  have n: "normalize_query unicode_excerpt (codepoints ''Mars Rover'') = (codepoints ''mars rover'')" by code_simp
  have hit: "fst (get_cached_media unicode_excerpt (fixed_clock 100) (codepoints ''Mars Rover'') None cached_world)
     = Some (example_row 1 ''pexels'' ''h1'' 7 0 1000)"
    by (simp add: get_cached_media_fst n cached_world_def init_world_def media_filter_def
        example_row_def fixed_clock_def order_desc_def)
  note t = search_with_fallback_cache_hit [OF hit, where net = down_network and prefer_video = False]
  from t have "fst (search_with_fallback unicode_excerpt (fixed_clock 100) down_network (codepoints ''Mars Rover'') False
      cached_world) = Some (m_media_url (example_row 1 ''pexels'' ''h1'' 7 0 1000))"
    by simp
  then have a: "fst (search_with_fallback unicode_excerpt (fixed_clock 100) down_network (codepoints ''Mars Rover'') False
      cached_world) = Some ''https://pexels/h1''"
    by (simp add: example_row_def)
  from t have "calls (snd (search_with_fallback unicode_excerpt (fixed_clock 100) down_network (codepoints ''Mars Rover'')
      False cached_world)) = calls cached_world"
    by blast
  then have c: "calls (snd (search_with_fallback unicode_excerpt (fixed_clock 100) down_network (codepoints ''Mars Rover'')
      False cached_world)) = 0"
    by (simp add: cached_world_def init_world_def)
  from hit a c show ?thesis by blast
qed



end
